theory Spec2Isabelle
  imports Main
begin

section \<open>Data model (frontend/src/types/index.ts)\<close>

text \<open>
  The structured debug payload \<open>QueryDebugInfo\<close> is never inspected by the code modelled
  here; it is the type parameter \<open>'d\<close>.
\<close>

datatype Role = User | Assistant

text \<open>
  \<open>WebSocketMessage.content\<close> has the union type \<open>string | QueryDebugInfo\<close>. The handlers
  cast it (\<open>as string\<close>), which does nothing at run time, so both alternatives can reach
  every branch.
\<close>

datatype 'd Content = Str string | Obj 'd

datatype EventType = Token | Sources | Debug | Complete | Error | Status

record 'd WebSocketMessage =
  wtype :: EventType
  wcontent :: "'d Content"

text \<open>
  Optional fields (\<open>isStreaming?\<close>, \<open>sources?\<close>, ...) are options; \<open>None\<close> is
  \<open>undefined\<close>. Assignments without coercion (\<open>sources\<close>, \<open>debugInfo\<close>) store the raw
  event content.
\<close>

record 'd Message =
  msg_id :: string
  role :: Role
  content :: string
  timestamp :: string
  isStreaming :: "bool option"
  sources :: "'d Content option"
  debugInfo :: "'d Content option"
  isBookmarked :: "bool option"
  feedback :: "int option"
  isEdited :: "bool option"

text \<open>The truthiness test \<open>lastMessage.isStreaming\<close>: \<open>undefined\<close> and \<open>false\<close> are falsy.\<close>

definition streaming :: "('d, 'x) Message_scheme \<Rightarrow> bool" where
  "streaming m = (isStreaming m = Some True)"

text \<open>
  String concatenation with \<open>+=\<close> converts its right operand to a string; an object
  becomes the text \<open>[object Object]\<close>.
\<close>

fun as_string :: "'d Content \<Rightarrow> string" where
  "as_string (Str s) = s"
| "as_string (Obj d) = ''[object Object]''"

section \<open>Component state of \<open>App\<close> (frontend/src/App.tsx)\<close>

subsection \<open>State updaters\<close>

text \<open>
  \<open>setMessages\<close> is always called with a function of the previous list. React queues
  that function and runs the queued functions, in order, no later than its next render;
  the model runs them at a render, and a render may come between any two handler
  calls. The functions the modelled code passes are the
  constructors of \<open>Updater\<close>; each carries what its closure captured when it was
  created. The token updater captures nothing: it reads \<open>currentMessageRef.current\<close> when
  it runs. The model runs each queued function once, and an assignment to a field of
  the last element is the new list with that element replaced.
\<close>

datatype 'd Updater =
    TokenUpdater
  | SourcesUpdater "'d Content"
  | DebugUpdater "'d Content"
  | CompleteUpdater
  | ErrorUpdater
  | AppendUpdater "'d Message"
  | SliceUpdater

text \<open>
  The updaters of the WebSocket handler copy the array, read
  \<open>newMessages[newMessages.length - 1]\<close> (\<open>undefined\<close> on an empty array, which the guard
  \<open>lastMessage && ...\<close> rejects) and assign to fields of that element.
  \<open>update_last guard f\<close> is that pattern.
\<close>

definition update_last ::
  "('d Message \<Rightarrow> bool) \<Rightarrow> ('d Message \<Rightarrow> 'd Message) \<Rightarrow> 'd Message list \<Rightarrow> 'd Message list" where
  "update_last guard f prev =
     (if prev \<noteq> [] \<and> guard (last prev) then butlast prev @ [f (last prev)] else prev)"

text \<open>
  \<open>apply_updater cur u prev\<close> runs the updater \<open>u\<close> on the list \<open>prev\<close> at a moment when
  \<open>currentMessageRef.current\<close> is \<open>cur\<close>.
\<close>

fun apply_updater :: "string \<Rightarrow> 'd Updater \<Rightarrow> 'd Message list \<Rightarrow> 'd Message list" where
  "apply_updater cur TokenUpdater prev =
     update_last (\<lambda>m. role m = Assistant \<and> streaming m) (\<lambda>m. m\<lparr>content := cur\<rparr>) prev"
| "apply_updater cur (SourcesUpdater c) prev =
     update_last (\<lambda>m. role m = Assistant)
       (\<lambda>m. m\<lparr>content := content m @ as_string c, sources := Some c\<rparr>) prev"
| "apply_updater cur (DebugUpdater c) prev =
     update_last (\<lambda>m. role m = Assistant) (\<lambda>m. m\<lparr>debugInfo := Some c\<rparr>) prev"
| "apply_updater cur CompleteUpdater prev =
     update_last (\<lambda>m. role m = Assistant) (\<lambda>m. m\<lparr>isStreaming := Some False\<rparr>) prev"
| "apply_updater cur ErrorUpdater prev =
     (if length prev > 0 \<and> streaming (last prev) then butlast prev else prev)"
| "apply_updater cur (AppendUpdater m) prev = prev @ [m]"
| "apply_updater cur SliceUpdater prev = butlast prev"

subsection \<open>The state\<close>

text \<open>
  The part of the component state that the WebSocket handler and \<open>sendMessageToServer\<close>
  touch. \<open>messages\<close> is the list of the last render, the value of the variable
  \<open>messages\<close> in the handlers; \<open>queue\<close> holds the updaters passed to \<open>setMessages\<close>
  since then, oldest first. The other state variables are only ever set to plain values
  and never read by the modelled code, so the model writes them at once.
  \<open>currentMessageRef\<close> is a ref: it changes inside the handler. \<open>error = None\<close> is
  \<open>null\<close>. \<open>refreshes\<close> counts the calls of \<open>loadConversations()\<close>.
\<close>

record 'd AppState =
  messages :: "'d Message list"
  queue :: "'d Updater list"
  isLoading :: bool
  status :: "'d Content"
  error :: "'d Content option"
  currentMessageRef :: string
  refreshes :: nat

definition setMessages :: "'d Updater \<Rightarrow> 'd AppState \<Rightarrow> 'd AppState" where
  "setMessages u s = s\<lparr>queue := queue s @ [u]\<rparr>"

text \<open>
  \<open>rendered cur s\<close> is the list React computes from \<open>s\<close> when it runs the queue while
  \<open>currentMessageRef.current\<close> is \<open>cur\<close>; \<open>render\<close> is that render, with the ref as it is
  in \<open>s\<close>.
\<close>

definition rendered :: "string \<Rightarrow> 'd AppState \<Rightarrow> 'd Message list" where
  "rendered cur s = foldl (\<lambda>prev u. apply_updater cur u prev) (messages s) (queue s)"

definition render :: "'d AppState \<Rightarrow> 'd AppState" where
  "render s = s\<lparr>messages := rendered (currentMessageRef s) s, queue := []\<rparr>"

subsection \<open>\<open>handleWebSocketMessage\<close>\<close>

fun handleWebSocketMessage :: "'d WebSocketMessage \<Rightarrow> 'd AppState \<Rightarrow> 'd AppState" where
  "handleWebSocketMessage wsMessage s =
     (case wtype wsMessage of
        Status \<Rightarrow> s\<lparr>status := wcontent wsMessage\<rparr>
      | Token \<Rightarrow>
          setMessages TokenUpdater
            (s\<lparr>currentMessageRef := currentMessageRef s @ as_string (wcontent wsMessage)\<rparr>)
      | Sources \<Rightarrow> setMessages (SourcesUpdater (wcontent wsMessage)) s
      | Debug \<Rightarrow> setMessages (DebugUpdater (wcontent wsMessage)) s
      | Complete \<Rightarrow>
          (setMessages CompleteUpdater s)
            \<lparr>isLoading := False, status := Str '''', currentMessageRef := '''',
             refreshes := Suc (refreshes s)\<rparr>
      | Error \<Rightarrow>
          setMessages ErrorUpdater
            (s\<lparr>error := Some (wcontent wsMessage), isLoading := False, status := Str '''',
               currentMessageRef := ''''\<rparr>))"

declare handleWebSocketMessage.simps [simp del]

text \<open>
  What happens to the component between two renders is a sequence of handler calls;
  when React renders between them is not in the hands of the code. A run is a list of
  steps, each an inbound event or a render.
\<close>

datatype 'd Step = Event "'d WebSocketMessage" | Render

fun step :: "'d Step \<Rightarrow> 'd AppState \<Rightarrow> 'd AppState" where
  "step (Event ev) s = handleWebSocketMessage ev s"
| "step Render s = render s"

definition run :: "'d Step list \<Rightarrow> 'd AppState \<Rightarrow> 'd AppState" where
  "run steps s = foldl (\<lambda>st x. step x st) s steps"

definition token_event :: "'d Content \<Rightarrow> 'd WebSocketMessage" where
  "token_event c = \<lparr>wtype = Token, wcontent = c\<rparr>"

definition error_event :: "'d Content \<Rightarrow> 'd WebSocketMessage" where
  "error_event c = \<lparr>wtype = Error, wcontent = c\<rparr>"

definition complete_event :: "'d Content \<Rightarrow> 'd WebSocketMessage" where
  "complete_event c = \<lparr>wtype = Complete, wcontent = c\<rparr>"


definition debug_event :: "'d Content \<Rightarrow> 'd WebSocketMessage" where
  "debug_event c = \<lparr>wtype = Debug, wcontent = c\<rparr>"

text \<open>
  A schedule of token events and renders: \<open>Some c\<close> is a token event with payload \<open>c\<close>,
  \<open>None\<close> a render. \<open>tokens_of\<close> are its payloads, in arrival order.
\<close>

fun token_schedule :: "'d Content option list \<Rightarrow> 'd Step list" where
  "token_schedule [] = []"
| "token_schedule (None # xs) = Render # token_schedule xs"
| "token_schedule (Some c # xs) = Event (token_event c) # token_schedule xs"



text \<open>Two messages that differ at most in their content.\<close>

definition alike :: "'d Message \<Rightarrow> 'd Message \<Rightarrow> bool" where
  "alike m m' = (m\<lparr>content := ''''\<rparr> = m'\<lparr>content := ''''\<rparr>)"

text \<open>
  \<open>handleStopGeneration\<close>, once the stop request has been accepted: it touches
  neither the message list nor the accumulator.
\<close>

definition handleStopGeneration_accepted :: "'d AppState \<Rightarrow> 'd AppState" where
  "handleStopGeneration_accepted s = s\<lparr>isLoading := False, status := Str ''''\<rparr>"

section \<open>Connection manager (frontend/src/hooks/useWebSocket.ts)\<close>

datatype ReadyState = CONNECTING | OPEN | CLOSING | CLOSED

record WebSocket =
  url :: string
  readyState :: ReadyState

record Location =
  protocol :: string
  host :: string

record HistoryEntry =
  h_role :: Role
  h_content :: string

record Outbound =
  conversation_id :: string
  o_content :: string
  history :: "HistoryEntry list"

text \<open>
  The three refs of the hook, and what it did to the outside: \<open>opened\<close> lists the URL of
  every \<open>new WebSocket(wsUrl)\<close>, oldest first, and \<open>transmitted\<close> every object handed to
  \<open>ws.send(JSON.stringify(data))\<close>. \<open>wsRef = None\<close> is \<open>null\<close>.
\<close>

record ConnectionManager =
  wsRef :: "WebSocket option"
  reconnectTimeoutRef :: "nat option"
  isConnectingRef :: bool
  opened :: "string list"
  transmitted :: "Outbound list"

text \<open>\<open>wsRef.current?.readyState === WebSocket.OPEN\<close>\<close>

definition is_open :: "ConnectionManager \<Rightarrow> bool" where
  "is_open c = (case wsRef c of None \<Rightarrow> False | Some ws \<Rightarrow> readyState ws = OPEN)"

definition wsUrl :: "Location \<Rightarrow> string" where
  "wsUrl loc =
     (if protocol loc = ''https:'' then ''wss:'' else ''ws:'') @ ''//'' @ host loc @ ''/ws/chat''"

definition connect :: "Location \<Rightarrow> ConnectionManager \<Rightarrow> ConnectionManager" where
  "connect loc c =
     (if isConnectingRef c \<or> is_open c then c
      else c\<lparr>isConnectingRef := True,
             opened := opened c @ [wsUrl loc],
             wsRef := Some \<lparr>url = wsUrl loc, readyState = CONNECTING\<rparr>\<rparr>)"

definition send :: "Outbound \<Rightarrow> ConnectionManager \<Rightarrow> bool \<times> ConnectionManager" where
  "send data c =
     (if is_open c then (True, c\<lparr>transmitted := transmitted c @ [data]\<rparr>) else (False, c))"

text \<open>
  The frame handler \<open>ws.onmessage\<close>. \<open>JSON.parse\<close> and the caller's \<open>onMessage\<close> are
  parameters: \<open>JSON_parse data\<close> is \<open>Inl err\<close> when parsing throws \<open>err\<close>; the callback
  returns the state it leaves and the exception it threw, if any. Both calls are inside
  the \<open>try\<close>, whose \<open>catch\<close> writes one \<open>console.error\<close> entry. The second component
  of the result is the exception that leaves the handler.
\<close>

record ('st, 'e) World =
  app :: 'st
  console :: "(string \<times> 'e) list"

definition console_error :: "string \<Rightarrow> 'e \<Rightarrow> ('st, 'e) World \<Rightarrow> ('st, 'e) World" where
  "console_error text err w = w\<lparr>console := console w @ [(text, err)]\<rparr>"

definition ws_onmessage ::
  "(string \<Rightarrow> 'e + 'm) \<Rightarrow> ('m \<Rightarrow> 'st \<Rightarrow> 'st \<times> 'e option) \<Rightarrow> string \<Rightarrow>
     ('st, 'e) World \<Rightarrow> ('st, 'e) World \<times> 'e option" where
  "ws_onmessage JSON_parse onMessage data w =
     (case JSON_parse data of
        Inl err \<Rightarrow> (console_error ''Failed to parse WebSocket message:'' err w, None)
      | Inr message \<Rightarrow>
          (case onMessage message (app w) of
             (st, None) \<Rightarrow> (w\<lparr>app := st\<rparr>, None)
           | (st, Some err) \<Rightarrow>
               (console_error ''Failed to parse WebSocket message:'' err (w\<lparr>app := st\<rparr>), None)))"


section \<open>Starting a turn: \<open>sendMessageToServer\<close> (frontend/src/App.tsx)\<close>

text \<open>\<open>Number.prototype.toString()\<close> on a non-negative integer: its decimal digits.\<close>

fun toString :: "nat \<Rightarrow> string" where
  "toString n =
     (if n < 10 then [char_of (48 + n)] else toString (n div 10) @ [char_of (48 + n mod 10)])"

declare toString.simps [simp del]

text \<open>
  The clock reads of one call: \<open>Date.now()\<close> and \<open>new Date().toISOString()\<close> for the user
  message, then for the assistant placeholder.
\<close>

record Clock =
  now_user :: nat
  iso_user :: string
  now_assistant :: nat
  iso_assistant :: string

definition userMessage :: "string \<Rightarrow> Clock \<Rightarrow> 'd Message" where
  "userMessage text clk =
     \<lparr>msg_id = toString (now_user clk), role = User, content = text,
      timestamp = iso_user clk, isStreaming = None, sources = None, debugInfo = None,
      isBookmarked = None, feedback = None, isEdited = None\<rparr>"

definition assistantMessage :: "Clock \<Rightarrow> 'd Message" where
  "assistantMessage clk =
     \<lparr>msg_id = toString (now_assistant clk + 1), role = Assistant, content = '''',
      timestamp = iso_assistant clk, isStreaming = Some True, sources = None,
      debugInfo = None, isBookmarked = None, feedback = None, isEdited = None\<rparr>"

text \<open>
  \<open>messages.map((msg) => ({ role: msg.role, content: msg.content }))\<close>, where \<open>messages\<close>
  is the component's state variable: the list of the last render, which the queued
  appends have not reached.
\<close>

definition history_of :: "'d Message list \<Rightarrow> HistoryEntry list" where
  "history_of msgs = map (\<lambda>msg. \<lparr>h_role = role msg, h_content = content msg\<rparr>) msgs"

definition outbound :: "string \<Rightarrow> string \<Rightarrow> 'd AppState \<Rightarrow> Outbound" where
  "outbound conversationId text s =
     \<lparr>conversation_id = conversationId, o_content = text, history = history_of (messages s)\<rparr>"

definition sendMessageToServer ::
  "string \<Rightarrow> string \<Rightarrow> Clock \<Rightarrow> 'd AppState \<times> ConnectionManager \<Rightarrow>
     'd AppState \<times> ConnectionManager" where
  "sendMessageToServer conversationId text clk sc =
     (let s = fst sc; c = snd sc;
          s1 = s\<lparr>error := None\<rparr>;
          s2 = setMessages (AppendUpdater (userMessage text clk)) s1;
          s3 = setMessages (AppendUpdater (assistantMessage clk)) s2;
          s4 = s3\<lparr>isLoading := True, currentMessageRef := ''''\<rparr>;
          (sent, c') = send (outbound conversationId text s) c
      in if \<not> sent
         then (setMessages SliceUpdater
                 (s4\<lparr>error := Some (Str ''Not connected to server''), isLoading := False\<rparr>), c')
         else (s4, c'))"

section \<open>Example states\<close>

definition hello_clock :: Clock where
  "hello_clock = \<lparr>now_user = 1700000000000, iso_user = ''2023-11-14T22:13:20.000Z'',
     now_assistant = 1700000000000, iso_assistant = ''2023-11-14T22:13:20.000Z''\<rparr>"

definition idle_state :: "unit AppState" where
  "idle_state = \<lparr>messages = [], queue = [], isLoading = False, status = Str '''', error = None,
     currentMessageRef = '''', refreshes = 0\<rparr>"

definition open_connection :: ConnectionManager where
  "open_connection =
     \<lparr>wsRef = Some \<lparr>url = ''ws://localhost:8000/ws/chat'', readyState = OPEN\<rparr>,
      reconnectTimeoutRef = None, isConnectingRef = False,
      opened = [''ws://localhost:8000/ws/chat''], transmitted = []\<rparr>"

definition no_connection :: ConnectionManager where
  "no_connection = \<lparr>wsRef = None, reconnectTimeoutRef = None, isConnectingRef = False,
     opened = [], transmitted = []\<rparr>"

definition https_page :: Location where
  "https_page = \<lparr>protocol = ''https:'', host = ''chat.example.org''\<rparr>"

definition http_page :: Location where
  "http_page = \<lparr>protocol = ''http:'', host = ''localhost:8000''\<rparr>"

text \<open>
  The user sends "Hello" on conversation \<open>c1\<close> with no prior messages, over an open
  channel, and React renders the two appended messages.
\<close>

definition hello_turn :: "unit AppState" where
  "hello_turn =
     render (fst (sendMessageToServer ''c1'' ''Hello'' hello_clock (idle_state, open_connection)))"

text \<open>The tokens "Hi" and " there" arrive, each followed by a render.\<close>

definition hello_streaming :: "unit AppState" where
  "hello_streaming =
     run [Event (token_event (Str ''Hi'')), Render, Event (token_event (Str '' there'')), Render]
       hello_turn"

text \<open>Then the turn completes.\<close>

definition finished_turn :: "unit AppState" where
  "finished_turn = run [Event (complete_event (Str '''')), Render] hello_streaming"



text \<open>
  Or the user stops the turn of \<open>hello_turn\<close>; no terminal event arrives, and the
  placeholder keeps its flag.
\<close>

definition stopped_turn :: "unit AppState" where
  "stopped_turn = handleStopGeneration_accepted hello_turn"


text \<open>
  Or the channel has started to close when the user sends "Again": \<open>wsRef\<close> still holds
  it, and its state is no longer \<open>OPEN\<close>.
\<close>

definition closing_connection :: ConnectionManager where
  "closing_connection =
     \<lparr>wsRef = Some \<lparr>url = ''ws://localhost:8000/ws/chat'', readyState = CLOSING\<rparr>,
      reconnectTimeoutRef = None, isConnectingRef = False,
      opened = [''ws://localhost:8000/ws/chat''], transmitted = []\<rparr>"

definition again_unsent :: "unit AppState" where
  "again_unsent =
     render (fst (sendMessageToServer ''c1'' ''Again'' hello_clock
       (stopped_turn, closing_connection)))"

text \<open>
  A stand-in for \<open>JSON.parse\<close> that accepts one frame and throws on every other, and the
  callback \<open>App\<close> passes to the hook.
\<close>

definition sample_parse :: "string \<Rightarrow> string + unit WebSocketMessage" where
  "sample_parse data =
     (if data = ''{status frame}'' then Inr \<lparr>wtype = Status, wcontent = Str ''Searching''\<rparr>
      else Inl ''SyntaxError'')"

definition onMessage_App :: "'d WebSocketMessage \<Rightarrow> 'd AppState \<Rightarrow> 'd AppState \<times> string option" where
  "onMessage_App wsMessage s = (handleWebSocketMessage wsMessage s, None)"

section \<open>Queued updaters and renders\<close>

lemma update_last_snoc:
  "update_last g f (ms @ [m]) = (if g m then ms @ [f m] else ms @ [m])"
  by (simp add: update_last_def)

lemma rendered_setMessages:
  "rendered cur (setMessages u s) = apply_updater cur u (rendered cur s)"
  by (simp add: rendered_def setMessages_def)

lemma rendered_empty_queue: "queue s = [] \<Longrightarrow> rendered cur s = messages s"
  by (simp add: rendered_def)

lemma rendered_render: "rendered cur (render s) = rendered (currentMessageRef s) s"
  by (simp add: rendered_def render_def)

lemma messages_render: "messages (render s) = rendered (currentMessageRef s) s"
  by (simp add: render_def)

lemma render_fields:
  "queue (render s) = []" "currentMessageRef (render s) = currentMessageRef s"
  "error (render s) = error s" "isLoading (render s) = isLoading s"
  "status (render s) = status s" "refreshes (render s) = refreshes s"
  by (simp_all add: render_def)


lemma rendered_fields [simp]:
  "rendered cur (s\<lparr>isLoading := b\<rparr>) = rendered cur s"
  "rendered cur (s\<lparr>status := st\<rparr>) = rendered cur s"
  "rendered cur (s\<lparr>error := e\<rparr>) = rendered cur s"
  "rendered cur (s\<lparr>currentMessageRef := a\<rparr>) = rendered cur s"
  "rendered cur (s\<lparr>refreshes := n\<rparr>) = rendered cur s"
  by (simp_all add: rendered_def)

lemma setMessages_fields [simp]:
  "messages (setMessages u s) = messages s" "queue (setMessages u s) = queue s @ [u]"
  "currentMessageRef (setMessages u s) = currentMessageRef s"
  "error (setMessages u s) = error s" "isLoading (setMessages u s) = isLoading s"
  "status (setMessages u s) = status s" "refreshes (setMessages u s) = refreshes s"
  by (simp_all add: setMessages_def)

lemma run_simps [simp]:
  "run [] s = s" "run (x # xs) s = run xs (step x s)"
  "run (xs @ ys) s = run ys (run xs s)"
  by (simp_all add: run_def)

text \<open>What each event adds to the list React will render, whatever the ref is then.\<close>

lemma rendered_event:
  "rendered cur (handleWebSocketMessage ev s) =
     (case wtype ev of
        Token \<Rightarrow> apply_updater cur TokenUpdater (rendered cur s)
      | Sources \<Rightarrow> apply_updater cur (SourcesUpdater (wcontent ev)) (rendered cur s)
      | Debug \<Rightarrow> apply_updater cur (DebugUpdater (wcontent ev)) (rendered cur s)
      | Complete \<Rightarrow> apply_updater cur CompleteUpdater (rendered cur s)
      | Error \<Rightarrow> apply_updater cur ErrorUpdater (rendered cur s)
      | Status \<Rightarrow> rendered cur s)"
  by (cases "wtype ev") (simp_all add: handleWebSocketMessage.simps rendered_setMessages)


lemma rendered_token:
  "rendered cur (handleWebSocketMessage (token_event t) s) =
     apply_updater cur TokenUpdater (rendered cur s)"
  by (simp add: rendered_event token_event_def)




text \<open>The same run keeps everything before the last element.\<close>

lemma token_run_prefix:
  fixes s :: "'d AppState"
  assumes "\<forall>cur. \<exists>ms m. P ms \<and> rendered cur s = ms @ [m] \<and> role m = Assistant \<and> streaming m"
  shows "\<forall>cur. \<exists>ms m. P ms \<and> rendered cur (run (token_schedule sched) s) = ms @ [m] \<and>
           role m = Assistant \<and> streaming m"
  using assms
proof (induction sched arbitrary: s)
  case Nil
  then show ?case by simp
next
  case (Cons x sched)
  show ?case
  proof (cases x)
    case None
    have "\<forall>cur. \<exists>ms m. P ms \<and> rendered cur (render s) = ms @ [m] \<and>
            role m = Assistant \<and> streaming m"
      using Cons.prems by (simp add: rendered_render)
    from Cons.IH [OF this] show ?thesis
      using None by simp
  next
    case (Some t)
    have "\<forall>cur. \<exists>ms m. P ms \<and>
            rendered cur (handleWebSocketMessage (token_event t) s) = ms @ [m] \<and>
            role m = Assistant \<and> streaming m"
    proof
      fix cur
      from Cons.prems obtain ms m where m: "P ms" "rendered cur s = ms @ [m]"
        "role m = Assistant" "streaming m" by blast
      then show "\<exists>ms m. P ms \<and>
            rendered cur (handleWebSocketMessage (token_event t) s) = ms @ [m] \<and>
            role m = Assistant \<and> streaming m"
        by (auto simp: rendered_token update_last_snoc streaming_def)
    qed
    from Cons.IH [OF this] show ?thesis
      using Some by simp
  qed
qed

text \<open>
  The accumulator's value at a render decides contents only: two renders of the same
  state agree on everything else, element by element.
\<close>

lemma alike_fields:
  assumes "alike m m'"
  shows "role m = role m'" "isStreaming m = isStreaming m'" "streaming m = streaming m'"
proof -
  from assms have e: "m\<lparr>content := ''''\<rparr> = m'\<lparr>content := ''''\<rparr>"
    by (simp add: alike_def)
  from arg_cong [OF e, of role] show "role m = role m'" by simp
  from arg_cong [OF e, of isStreaming] show "isStreaming m = isStreaming m'" by simp
  then show "streaming m = streaming m'" by (simp add: streaming_def)
qed

lemma alike_updates:
  "alike m m' \<Longrightarrow> alike (m\<lparr>content := a\<rparr>) (m'\<lparr>content := b\<rparr>)"
  "alike m m' \<Longrightarrow> alike (m\<lparr>content := a, sources := x\<rparr>) (m'\<lparr>content := b, sources := x\<rparr>)"
  "alike m m' \<Longrightarrow> alike (m\<lparr>debugInfo := y\<rparr>) (m'\<lparr>debugInfo := y\<rparr>)"
  "alike m m' \<Longrightarrow> alike (m\<lparr>isStreaming := z\<rparr>) (m'\<lparr>isStreaming := z\<rparr>)"
  "alike m m"
  by (cases m; cases m'; simp add: alike_def)+

lemma list_all2_snoc_cases:
  assumes "list_all2 P xs ys"
  shows "(xs = [] \<and> ys = []) \<or>
         (\<exists>xs' x ys' y. xs = xs' @ [x] \<and> ys = ys' @ [y] \<and> list_all2 P xs' ys' \<and> P x y)"
  using assms
  by (cases xs rule: rev_cases; cases ys rule: rev_cases)
    (auto simp: list_all2_append1 list_all2_Cons1)

lemma apply_updater_alike:
  assumes "list_all2 alike ms ms'"
  shows "list_all2 alike (apply_updater cur u ms) (apply_updater cur' u ms')"
proof -
  from list_all2_snoc_cases [OF assms] show ?thesis
  proof (elim disjE conjE exE)
    assume "ms = []" "ms' = []"
    then show ?thesis by (cases u) (simp_all add: update_last_def alike_updates)
  next
    fix xs x ys y
    assume e: "ms = xs @ [x]" "ms' = ys @ [y]" and r: "list_all2 alike xs ys" "alike x y"
    show ?thesis
      unfolding e using r alike_fields [OF r(2)]
      by (cases u) (auto simp: update_last_snoc alike_updates list_all2_appendI)
  qed
qed

lemma rendered_alike: "list_all2 alike (rendered cur s) (rendered cur' s)"
proof -
  have "list_all2 alike ms ms' \<Longrightarrow>
        list_all2 alike (foldl (\<lambda>prev u. apply_updater cur u prev) ms q)
                        (foldl (\<lambda>prev u. apply_updater cur' u prev) ms' q)"
    for q and ms ms' :: "'a Message list"
    by (induction q arbitrary: ms ms') (simp_all add: apply_updater_alike)
  moreover have "list_all2 alike (messages s) (messages s)"
    by (simp add: list_all2_same alike_updates)
  ultimately show ?thesis by (simp add: rendered_def)
qed

lemma rendered_length: "length (rendered cur s) = length (rendered cur' s)"
  using rendered_alike [of cur s cur'] by (rule list_all2_lengthD)


section \<open>What \<open>sendMessageToServer\<close> leaves\<close>

lemma send_failure:
  assumes "\<not> fst (send (outbound cid text s) c)"
  shows "sendMessageToServer cid text clk (s, c) =
           (s\<lparr>error := Some (Str ''Not connected to server''),
              queue := queue s @ [AppendUpdater (userMessage text clk),
                                  AppendUpdater (assistantMessage clk), SliceUpdater],
              isLoading := False, currentMessageRef := ''''\<rparr>, c)"
  using assms
  by (simp add: sendMessageToServer_def send_def setMessages_def Let_def split: if_splits)

lemma send_success:
  assumes "is_open c"
  shows "sendMessageToServer cid text clk (s, c) =
           (s\<lparr>error := None,
              queue := queue s @ [AppendUpdater (userMessage text clk),
                                  AppendUpdater (assistantMessage clk)],
              isLoading := True, currentMessageRef := ''''\<rparr>,
            c\<lparr>transmitted := transmitted c @ [outbound cid text s]\<rparr>)"
  using assms
  by (simp add: sendMessageToServer_def send_def setMessages_def Let_def)

lemma rendered_send_failure:
  assumes "\<not> fst (send (outbound cid text s) c)"
  shows "rendered cur (fst (sendMessageToServer cid text clk (s, c))) =
           rendered cur s @ [userMessage text clk]"
  by (simp add: send_failure [OF assms] rendered_def butlast_append)

lemma rendered_send_success:
  assumes "is_open c"
  shows "rendered cur (fst (sendMessageToServer cid text clk (s, c))) =
           rendered cur s @ [userMessage text clk, assistantMessage clk]"
  by (simp add: send_success [OF assms] rendered_def)


lemma not_open_closing_connection: "\<not> is_open closing_connection"
  by (simp add: is_open_def closing_connection_def)

lemma is_open_open_connection: "is_open open_connection"
  by (simp add: is_open_def open_connection_def)

section \<open>The example states\<close>

lemma hello_turn_eq:
  "hello_turn =
     idle_state\<lparr>error := None,
       messages := [userMessage ''Hello'' hello_clock, assistantMessage hello_clock],
       isLoading := True, currentMessageRef := ''''\<rparr>"
  by (simp add: hello_turn_def send_success is_open_open_connection render_def rendered_def
      idle_state_def)

lemma hello_turn_fields:
  "messages hello_turn = [userMessage ''Hello'' hello_clock, assistantMessage hello_clock]"
  "queue hello_turn = []" "currentMessageRef hello_turn = ''''"
  by (simp_all add: hello_turn_eq idle_state_def)

lemma hello_streaming_fields:
  "messages hello_streaming =
     [userMessage ''Hello'' hello_clock, (assistantMessage hello_clock)\<lparr>content := ''Hi there''\<rparr>]"
  "queue hello_streaming = []" "currentMessageRef hello_streaming = ''Hi there''"
  by (simp_all add: hello_streaming_def hello_turn_eq idle_state_def token_event_def
      handleWebSocketMessage.simps render_def rendered_def setMessages_def update_last_def
      assistantMessage_def streaming_def)

text \<open>
  The first scenario of the specification: "Hello", then the tokens "Hi" and " there",
  then \<open>complete\<close>, React rendering after each.
\<close>

lemma finished_turn_fields:
  "messages finished_turn =
     [userMessage ''Hello'' hello_clock,
      (assistantMessage hello_clock)\<lparr>content := ''Hi there'', isStreaming := Some False\<rparr>]"
  "queue finished_turn = []" "currentMessageRef finished_turn = ''''"
  by (simp_all add: finished_turn_def hello_streaming_fields complete_event_def
      handleWebSocketMessage.simps render_def rendered_def setMessages_def update_last_def
      assistantMessage_def)



lemma stopped_turn_fields:
  "messages stopped_turn = [userMessage ''Hello'' hello_clock, assistantMessage hello_clock]"
  "queue stopped_turn = []"
  by (simp_all add: stopped_turn_def handleStopGeneration_accepted_def hello_turn_fields)


lemma again_unsent_fields:
  "messages again_unsent =
     [userMessage ''Hello'' hello_clock, assistantMessage hello_clock,
      userMessage ''Again'' hello_clock]"
  "queue again_unsent = []"
  by (simp_all add: again_unsent_def messages_render rendered_send_failure send_def
      not_open_closing_connection rendered_empty_queue stopped_turn_fields render_fields)

section \<open>Token streams\<close>





section \<open>Errors during a turn\<close>

text \<open>
  C2, as stated: after the optimistic append and an error event the list is as long as
  before the turn. It is not: the user's message stays. From an empty list, "Hello" is
  sent, the token "Par" arrives, then the error "rate limited"; one message is left.
\<close>

theorem error_after_turn_length_counterexample:
  "length (messages (run [Event (token_event (Str ''Par'')), Render,
      Event (error_event (Str ''rate limited'')), Render] hello_turn))
     \<noteq> length (messages idle_state)"
  by (simp add: hello_turn_eq idle_state_def token_event_def error_event_def
      handleWebSocketMessage.simps render_def rendered_def setMessages_def update_last_def
      assistantMessage_def streaming_def)

text \<open>
  C2, amended: when a turn was started over an open channel, an error event, after any
  number of token events and whenever React renders in between, removes the assistant
  placeholder and nothing else, and the event's content is the error shown. Once
  rendered, the list is a list React could have rendered without the turn, followed by
  the user's message, and it is one element longer than any such list. With nothing
  queued when the turn starts, it is the list before the turn followed by the user's
  message, one element longer than before the turn.
\<close>

theorem error_after_turn_keeps_user_message:
  fixes s :: "'d AppState"
  assumes "is_open c"
  shows "(\<exists>cur'. messages (render (run (token_schedule sched @ [Event (error_event e)])
            (fst (sendMessageToServer cid text clk (s, c))))) =
              rendered cur' s @ [userMessage text clk])
       \<and> length (messages (render (run (token_schedule sched @ [Event (error_event e)])
            (fst (sendMessageToServer cid text clk (s, c)))))) = Suc (length (rendered cur s))
       \<and> (queue s = [] \<longrightarrow>
            messages (render (run (token_schedule sched @ [Event (error_event e)])
              (fst (sendMessageToServer cid text clk (s, c))))) =
              messages s @ [userMessage text clk]
          \<and> length (messages (render (run (token_schedule sched @ [Event (error_event e)])
              (fst (sendMessageToServer cid text clk (s, c)))))) = Suc (length (messages s)))
       \<and> error (render (run (token_schedule sched @ [Event (error_event e)])
            (fst (sendMessageToServer cid text clk (s, c))))) = Some e"
proof -
  let ?s1 = "fst (sendMessageToServer cid text clk (s, c))"
  let ?s2 = "run (token_schedule sched) ?s1"
  let ?s3 = "handleWebSocketMessage (error_event e) ?s2"
  let ?P = "\<lambda>ms. \<exists>cur'. ms = rendered cur' s @ [userMessage text clk]"
  have "\<forall>cur. \<exists>ms m. ?P ms \<and> rendered cur ?s1 = ms @ [m] \<and> role m = Assistant \<and> streaming m"
    by (auto simp: rendered_send_success [OF assms] assistantMessage_def streaming_def)
  from token_run_prefix [of ?P, OF this, of sched]
  have p: "\<forall>cur. \<exists>ms m. ?P ms \<and> rendered cur ?s2 = ms @ [m] \<and>
          role m = Assistant \<and> streaming m" .
  have m3: "?P (rendered x ?s3)" for x
  proof -
    from p obtain ms m where "?P ms" "rendered x ?s2 = ms @ [m]" "streaming m" by blast
    then show ?thesis
      by (simp add: rendered_event error_event_def)
  qed
  have f: "messages (render (run (token_schedule sched @ [Event (error_event e)]) ?s1)) =
             rendered (currentMessageRef ?s3) ?s3"
    by (simp add: messages_render)
  from m3 [of "currentMessageRef ?s3"] obtain cur' where
    c: "rendered (currentMessageRef ?s3) ?s3 = rendered cur' s @ [userMessage text clk]"
    by blast
  have e3: "error (render (run (token_schedule sched @ [Event (error_event e)]) ?s1)) = Some e"
    by (simp add: render_fields handleWebSocketMessage.simps error_event_def)
  have g1: "\<exists>cur'. messages (render (run (token_schedule sched @ [Event (error_event e)]) ?s1)) =
              rendered cur' s @ [userMessage text clk]"
    unfolding f using c by blast
  have g2: "length (messages (render (run (token_schedule sched @ [Event (error_event e)]) ?s1)))
              = Suc (length (rendered cur s))"
    unfolding f c using rendered_length [of cur' s cur] by simp
  have g3: "queue s = [] \<longrightarrow>
            messages (render (run (token_schedule sched @ [Event (error_event e)]) ?s1)) =
              messages s @ [userMessage text clk]
          \<and> length (messages (render (run (token_schedule sched @ [Event (error_event e)]) ?s1)))
              = Suc (length (messages s))"
    unfolding f c by (simp add: rendered_empty_queue)
  show ?thesis
    using g1 g2 g3 e3 by (intro conjI)
qed

theorem error_after_turn_keeps_user_message_witness:
  "is_open open_connection \<and> queue idle_state = [] \<and>
   messages (render (run (token_schedule [Some (Str ''Par'')] @ [Event (error_event (Str ''rate limited''))])
      (fst (sendMessageToServer ''c1'' ''Hello'' hello_clock (idle_state, open_connection))))) =
     [userMessage ''Hello'' hello_clock] \<and>
   error (render (run (token_schedule [Some (Str ''Par'')] @ [Event (error_event (Str ''rate limited''))])
      (fst (sendMessageToServer ''c1'' ''Hello'' hello_clock (idle_state, open_connection))))) =
     Some (Str ''rate limited'')"
proof -
  have q: "queue idle_state = []" and e: "messages idle_state = []"
    by (simp_all add: idle_state_def)
  show ?thesis
    using error_after_turn_keeps_user_message
      [OF is_open_open_connection, of "[Some (Str ''Par'')]" "Str ''rate limited''" "''c1''"
        "''Hello''" hello_clock idle_state "[]"]
      is_open_open_connection q e
    by (simp del: run_simps token_schedule.simps)
qed

section \<open>A send that fails\<close>




text \<open>
  C5, as stated: whenever \<open>send\<close> returns false, no streaming-flagged message remains.
  The failing turn's placeholder is removed, but a placeholder left by an earlier turn
  is not touched. In \<open>stopped_turn\<close> the user stopped the first turn, which leaves its
  placeholder flagged; "Again" is then sent while the channel is closing.
\<close>

theorem send_failure_streaming_counterexample:
  "\<not> fst (send (outbound ''c1'' ''Again'' stopped_turn) closing_connection) \<and>
   filter streaming (messages (render (fst (sendMessageToServer ''c1'' ''Again'' hello_clock
      (stopped_turn, closing_connection))))) \<noteq> []"
  by (simp add: messages_render rendered_send_failure send_def not_open_closing_connection
      rendered_empty_queue stopped_turn_fields assistantMessage_def userMessage_def
      streaming_def)

text \<open>
  C5, amended: whenever \<open>send\<close> returns false after the optimistic append, the assistant
  placeholder is removed and the user's message stays at the end of the list, the error
  shown is "Not connected to server", loading is off, nothing was transmitted, and the
  turn leaves no streaming-flagged message of its own: the flagged messages are those
  that were flagged before the turn, so none remains when none was flagged before. This
  holds of the list React renders whatever was queued before the turn; with nothing
  queued, the rendered list is the list before the turn followed by the user's message.
\<close>

theorem send_failure_reverts_placeholder:
  assumes "\<not> fst (send (outbound cid text s) c)"
  shows "rendered cur (fst (sendMessageToServer cid text clk (s, c))) =
           rendered cur s @ [userMessage text clk]
     \<and> (queue s = [] \<longrightarrow>
          messages (render (fst (sendMessageToServer cid text clk (s, c)))) =
            messages s @ [userMessage text clk])
     \<and> error (fst (sendMessageToServer cid text clk (s, c))) =
         Some (Str ''Not connected to server'')
     \<and> \<not> isLoading (fst (sendMessageToServer cid text clk (s, c)))
     \<and> filter streaming (rendered cur (fst (sendMessageToServer cid text clk (s, c)))) =
         filter streaming (rendered cur s)
     \<and> (queue s = [] \<longrightarrow>
          filter streaming (messages (render (fst (sendMessageToServer cid text clk (s, c))))) =
            filter streaming (messages s))
     \<and> (filter streaming (rendered cur s) = [] \<longrightarrow>
          filter streaming (rendered cur (fst (sendMessageToServer cid text clk (s, c)))) = [])
     \<and> snd (sendMessageToServer cid text clk (s, c)) = c"
proof -
  have m: "rendered x (fst (sendMessageToServer cid text clk (s, c))) =
             rendered x s @ [userMessage text clk]" for x
    by (rule rendered_send_failure [OF assms])
  have f: "error (fst (sendMessageToServer cid text clk (s, c))) =
             Some (Str ''Not connected to server'')"
    "\<not> isLoading (fst (sendMessageToServer cid text clk (s, c)))"
    "snd (sendMessageToServer cid text clk (s, c)) = c"
    by (simp_all add: send_failure [OF assms])
  show ?thesis
    by (simp add: messages_render m f rendered_empty_queue userMessage_def streaming_def)
qed

theorem send_failure_reverts_placeholder_witness:
  "\<not> fst (send (outbound ''c1'' ''Again'' finished_turn) closing_connection) \<and>
   queue finished_turn = [] \<and> filter streaming (messages finished_turn) = [] \<and>
   messages (render (fst (sendMessageToServer ''c1'' ''Again'' hello_clock
      (finished_turn, closing_connection)))) =
     messages finished_turn @ [userMessage ''Again'' hello_clock] \<and>
   filter streaming (messages (render (fst (sendMessageToServer ''c1'' ''Again'' hello_clock
      (finished_turn, closing_connection))))) = []"
proof -
  have h1: "\<not> fst (send (outbound ''c1'' ''Again'' finished_turn) closing_connection)"
    by (simp add: send_def not_open_closing_connection)
  have h2: "queue finished_turn = []"
    by (simp add: finished_turn_fields)
  have h3: "filter streaming (messages finished_turn) = []"
    by (simp add: finished_turn_fields userMessage_def streaming_def)
  show ?thesis
    using send_failure_reverts_placeholder [OF h1, of "''''" hello_clock] h1 h2 h3
    by (simp add: userMessage_def streaming_def)
qed

section \<open>Completion\<close>




section \<open>Which element an event may change\<close>




text \<open>
  C9. An error event that finds the list empty, or its last element not marked
  streaming, sets the error text to the event's content, turns loading off, clears the
  status and the accumulator, and changes nothing else: the message list is the same
  list, with no message removed. With nothing queued this is said of the list of the
  last render and of the state after the next render; in general, of the list React
  renders.
\<close>

theorem error_without_stream_keeps_messages:
  "(queue s = [] \<and> (messages s = [] \<or> \<not> streaming (last (messages s))) \<longrightarrow>
      render (handleWebSocketMessage (error_event c) s) =
        s\<lparr>error := Some c, isLoading := False, status := Str '''', currentMessageRef := ''''\<rparr>
      \<and> messages (render (handleWebSocketMessage (error_event c) s)) = messages s)
   \<and> (rendered cur s = [] \<or> \<not> streaming (last (rendered cur s)) \<longrightarrow>
        rendered cur (handleWebSocketMessage (error_event c) s) = rendered cur s
        \<and> error (handleWebSocketMessage (error_event c) s) = Some c
        \<and> \<not> isLoading (handleWebSocketMessage (error_event c) s)
        \<and> status (handleWebSocketMessage (error_event c) s) = Str ''''
        \<and> currentMessageRef (handleWebSocketMessage (error_event c) s) = '''')"
proof (intro conjI impI)
  assume h: "queue s = [] \<and> (messages s = [] \<or> \<not> streaming (last (messages s)))"
  then have m: "rendered x (handleWebSocketMessage (error_event c) s) = messages s" for x
    by (auto simp: rendered_event error_event_def rendered_empty_queue)
  show "render (handleWebSocketMessage (error_event c) s) =
        s\<lparr>error := Some c, isLoading := False, status := Str '''', currentMessageRef := ''''\<rparr>"
    using h m [of "''''"]
    by (cases s) (simp add: render_def handleWebSocketMessage.simps error_event_def
        setMessages_def)
  show "messages (render (handleWebSocketMessage (error_event c) s)) = messages s"
    by (simp add: messages_render m)
next
  assume "rendered cur s = [] \<or> \<not> streaming (last (rendered cur s))"
  then show "rendered cur (handleWebSocketMessage (error_event c) s) = rendered cur s"
    by (auto simp: rendered_event error_event_def)
qed (simp_all add: handleWebSocketMessage.simps error_event_def)

theorem error_without_stream_keeps_messages_witness:
  "queue finished_turn = [] \<and> messages finished_turn \<noteq> [] \<and>
   \<not> streaming (last (messages finished_turn)) \<and>
   messages (render (handleWebSocketMessage (error_event (Str ''rate limited'')) finished_turn)) =
     [userMessage ''Hello'' hello_clock,
      (assistantMessage hello_clock)\<lparr>content := ''Hi there'', isStreaming := Some False\<rparr>] \<and>
   error (render (handleWebSocketMessage (error_event (Str ''rate limited'')) finished_turn)) =
     Some (Str ''rate limited'')"
proof -
  have q: "queue finished_turn = []"
    and h: "\<not> streaming (last (messages finished_turn))"
    and n: "messages finished_turn \<noteq> []"
    by (simp_all add: finished_turn_fields streaming_def)
  show ?thesis
    using error_without_stream_keeps_messages [of finished_turn "Str ''rate limited''" "''''"]
      q h n
    by (simp add: finished_turn_fields)
qed

section \<open>The connection manager\<close>

text \<open>
  C7. \<open>connect\<close> is idempotent. When the guard flag says a connection attempt is under
  way, or the current channel is open, it changes nothing and opens no channel.
  Otherwise it opens exactly one channel, to \<open>/ws/chat\<close> on the page's host, sets the
  guard and stores the channel; the scheme is \<open>wss:\<close> exactly when the page's protocol
  is \<open>https:\<close>.
\<close>

theorem connect_idempotent:
  "connect loc (connect loc c) = connect loc c \<and>
   (isConnectingRef c \<or> is_open c \<longrightarrow> connect loc c = c) \<and>
   (\<not> (isConnectingRef c \<or> is_open c) \<longrightarrow>
      connect loc c =
        c\<lparr>isConnectingRef := True,
          opened := opened c @
            [(if protocol loc = ''https:'' then ''wss:'' else ''ws:'') @ ''//'' @ host loc @
               ''/ws/chat''],
          wsRef := Some \<lparr>url = (if protocol loc = ''https:'' then ''wss:'' else ''ws:'') @ ''//'' @
                                host loc @ ''/ws/chat'',
                         readyState = CONNECTING\<rparr>\<rparr>) \<and>
   (take 4 (wsUrl loc) = ''wss:'' \<longleftrightarrow> protocol loc = ''https:'')"
  by (simp add: connect_def wsUrl_def is_open_def)

theorem connect_idempotent_witness:
  "\<not> (isConnectingRef no_connection \<or> is_open no_connection) \<and>
   opened (connect https_page no_connection) = [''wss://chat.example.org/ws/chat''] \<and>
   opened (connect http_page no_connection) = [''ws://localhost:8000/ws/chat''] \<and>
   is_open open_connection \<and> connect http_page open_connection = open_connection"
proof -
  have h: "\<not> (isConnectingRef no_connection \<or> is_open no_connection)"
    by (simp add: no_connection_def is_open_def)
  have o: "is_open open_connection"
    by (simp add: open_connection_def is_open_def)
  have e: "opened no_connection = []"
    by (simp add: no_connection_def)
  have a: "opened (connect https_page no_connection) = [''wss://chat.example.org/ws/chat'']"
    using connect_idempotent [of https_page no_connection] h e by (simp add: https_page_def)
  have b: "opened (connect http_page no_connection) = [''ws://localhost:8000/ws/chat'']"
    using connect_idempotent [of http_page no_connection] h e by (simp add: http_page_def)
  have c: "connect http_page open_connection = open_connection"
    using connect_idempotent [of http_page open_connection] o by simp
  show ?thesis
    using h o a b c by simp
qed

text \<open>
  C8. When \<open>JSON.parse\<close> throws on a frame, the frame handler writes one
  \<open>console.error\<close> entry and does nothing else: the state the callback acts on is
  unchanged, whatever the callback is, so the callback was not called; and no exception
  leaves the handler.
\<close>

theorem malformed_frame_dropped:
  assumes "JSON_parse data = Inl err"
  shows "ws_onmessage JSON_parse onMessage data w =
           (w\<lparr>console := console w @ [(''Failed to parse WebSocket message:'', err)]\<rparr>, None)
       \<and> app (fst (ws_onmessage JSON_parse onMessage data w)) = app w
       \<and> snd (ws_onmessage JSON_parse onMessage data w) = None"
  using assms by (simp add: ws_onmessage_def console_error_def)

theorem malformed_frame_dropped_witness:
  "sample_parse ''<html>'' = Inl ''SyntaxError'' \<and>
   ws_onmessage sample_parse onMessage_App ''<html>'' \<lparr>app = hello_turn, console = []\<rparr> =
     (\<lparr>app = hello_turn, console = [(''Failed to parse WebSocket message:'', ''SyntaxError'')]\<rparr>,
      None)"
proof -
  have h: "sample_parse ''<html>'' = Inl ''SyntaxError''"
    by (simp add: sample_parse_def)
  show ?thesis
    using malformed_frame_dropped
      [of sample_parse "''<html>''" "''SyntaxError''" onMessage_App
        "\<lparr>app = hello_turn, console = []\<rparr>"] h
    by simp
qed

section \<open>The history sent with a turn\<close>

text \<open>
  C10. The payload handed to \<open>send\<close> carries as history the role and content of every
  message of the list as it stood before the turn's two appends, in list order and with
  no bound on its length: the new user message and the placeholder are not in it. Over
  an open channel exactly that payload is transmitted; otherwise nothing is. The two
  appends are queued behind whatever was queued; with nothing queued, the next render
  shows the list the history was taken from, followed by the two new messages.
\<close>

theorem history_is_prior_messages:
  "transmitted (snd (sendMessageToServer cid text clk (s, c))) =
     (if is_open c
      then transmitted c @
        [\<lparr>conversation_id = cid, o_content = text,
          history = map (\<lambda>msg. \<lparr>h_role = role msg, h_content = content msg\<rparr>) (messages s)\<rparr>]
      else transmitted c) \<and>
   (is_open c \<longrightarrow>
      rendered cur (fst (sendMessageToServer cid text clk (s, c))) =
        rendered cur s @ [userMessage text clk, assistantMessage clk]) \<and>
   (is_open c \<and> queue s = [] \<longrightarrow>
      messages (render (fst (sendMessageToServer cid text clk (s, c)))) =
        messages s @ [userMessage text clk, assistantMessage clk]) \<and>
   messages (fst (sendMessageToServer cid text clk (s, c))) = messages s \<and>
   history (outbound cid text s) =
     map (\<lambda>msg. \<lparr>h_role = role msg, h_content = content msg\<rparr>) (messages s) \<and>
   length (history (outbound cid text s)) = length (messages s)"
proof -
  have t: "transmitted (snd (sendMessageToServer cid text clk (s, c))) =
     (if is_open c
      then transmitted c @
        [\<lparr>conversation_id = cid, o_content = text,
          history = map (\<lambda>msg. \<lparr>h_role = role msg, h_content = content msg\<rparr>) (messages s)\<rparr>]
      else transmitted c)"
    and m: "messages (fst (sendMessageToServer cid text clk (s, c))) = messages s"
    by (simp_all add: sendMessageToServer_def send_def outbound_def history_of_def Let_def)
  have h: "history (outbound cid text s) =
     map (\<lambda>msg. \<lparr>h_role = role msg, h_content = content msg\<rparr>) (messages s)"
    "length (history (outbound cid text s)) = length (messages s)"
    by (simp_all add: outbound_def history_of_def)
  have r: "is_open c \<longrightarrow>
      rendered cur (fst (sendMessageToServer cid text clk (s, c))) =
        rendered cur s @ [userMessage text clk, assistantMessage clk]"
    by (simp add: rendered_send_success)
  have q: "is_open c \<and> queue s = [] \<longrightarrow>
      messages (render (fst (sendMessageToServer cid text clk (s, c)))) =
        messages s @ [userMessage text clk, assistantMessage clk]"
    by (simp add: messages_render rendered_send_success rendered_empty_queue)
  show ?thesis
    using t r q m h by (intro conjI)
qed

theorem history_is_prior_messages_witness:
  "is_open open_connection \<and> queue finished_turn = [] \<and>
   transmitted (snd (sendMessageToServer ''c1'' ''And then?'' hello_clock
      (finished_turn, open_connection))) =
     [\<lparr>conversation_id = ''c1'', o_content = ''And then?'',
       history = [\<lparr>h_role = User, h_content = ''Hello''\<rparr>,
                  \<lparr>h_role = Assistant, h_content = ''Hi there''\<rparr>]\<rparr>] \<and>
   messages (render (fst (sendMessageToServer ''c1'' ''And then?'' hello_clock
      (finished_turn, open_connection)))) =
     messages finished_turn @ [userMessage ''And then?'' hello_clock, assistantMessage hello_clock]"
proof -
  have t: "transmitted open_connection = []"
    by (simp add: open_connection_def)
  have q: "queue finished_turn = []"
    by (simp add: finished_turn_fields)
  have a: "transmitted (snd (sendMessageToServer ''c1'' ''And then?'' hello_clock
      (finished_turn, open_connection))) =
     [\<lparr>conversation_id = ''c1'', o_content = ''And then?'',
       history = [\<lparr>h_role = User, h_content = ''Hello''\<rparr>,
                  \<lparr>h_role = Assistant, h_content = ''Hi there''\<rparr>]\<rparr>]"
    using history_is_prior_messages [of "''c1''" "''And then?''" hello_clock finished_turn
        open_connection "''''"] is_open_open_connection t
    by (simp add: finished_turn_fields userMessage_def assistantMessage_def)
  have b: "messages (render (fst (sendMessageToServer ''c1'' ''And then?'' hello_clock
      (finished_turn, open_connection)))) =
     messages finished_turn @ [userMessage ''And then?'' hello_clock, assistantMessage hello_clock]"
    using history_is_prior_messages [of "''c1''" "''And then?''" hello_clock finished_turn
        open_connection "''''"] is_open_open_connection q
    by simp
  show ?thesis
    using is_open_open_connection q a b by simp
qed

end
